theory Spec2Isabelle
  imports Main "HOL-Library.Sublist"
begin

section \<open>Data model (src/types/chat.ts)\<close>

text \<open>
  The roles of \<open>Message\<close> (\<open>'user' | 'system'\<close>) and of \<open>AIMessage\<close>
  (\<open>'assistant'\<close>). The log \<open>_messages\<close> holds values of either interface, so one
  record with the optional fields of \<open>Message\<close> stands for both.
\<close>

datatype role = User | System | Assistant

record image_payload =
  img_data :: string
  img_type :: string
  img_name :: "string option"

record turn =
  role :: role
  content :: string
  timestamp :: "nat option"
  image' :: "image_payload option"

text \<open>The \<open>{role, content}\<close> objects of \<open>AIRequest.messages\<close>.\<close>

record formatted_message =
  fm_role :: role
  fm_content :: string

record ai_request =
  req_model :: string
  req_messages :: "formatted_message list"
  req_max_tokens :: nat

record choice_message =
  cm_role :: string
  cm_content :: string

record choice =
  message :: choice_message

record api_error =
  err_message :: string
  err_type :: string
  err_code :: "string option"

text \<open>
  \<open>AIResponse\<close>. The code tests \<open>data.choices && data.choices.length > 0\<close>, so a body
  without \<open>choices\<close> (an error body) is a value of the model: \<open>choices = None\<close>.
\<close>

record ai_response =
  choices :: "choice list option"
  error :: "api_error option"

section \<open>The collaborators: configuration, axios, the webview, the output channel\<close>

text \<open>
  What the panel reads from the module \<open>../config\<close> (\<open>getApiKey()\<close>, \<open>getModel()\<close>,
  \<open>OPENAI_API_ENDPOINT\<close>, \<open>MAX_TOKENS\<close>) is a parameter of every operation. \<open>getApiKey\<close> is declared to return a string; \<open>!this._apiKey\<close> holds
  exactly for the empty string.
\<close>

record config =
  apiKey :: string
  model :: string
  OPENAI_API_ENDPOINT :: string
  MAX_TOKENS :: nat

record http_request =
  url :: string
  body :: ai_request
  content_type :: string
  authorization :: string

record axios_response =
  status :: nat
  data :: "ai_response option"

record axios_error =
  ax_message :: string
  response :: "axios_response option"

text \<open>
  A value that a \<open>catch\<close> clause can receive: an \<open>Error\<close> with its message, an axios
  error (also an \<open>Error\<close>), or a value that is no \<open>Error\<close>, given by its \<open>String(...)\<close>.
\<close>

datatype thrown = ErrorObj string | AxiosError axios_error | NonError string

datatype axios_outcome = Resolved ai_response | Rejected thrown

text \<open>The network: what \<open>axios.post\<close> settles to for a request.\<close>

type_synonym network = "http_request \<Rightarrow> axios_outcome"

datatype event_type = response_event | error_event

record ui_event =
  ev_type :: event_type
  ev_content :: string

text \<open>The lines written to the output channel, one constructor per template.\<close>

datatype log_line =
    ReceivedQuestion string
  | CallingAPI
  | SendingRequestTo string
  | ModelLine string
  | MessagesCount nat
  | ReceivedResponse
  | ApiErrorLine "nat option" string
  | ResponseDataLine "ai_response option"
  | ErrorCallingLine string
  | ErrorHandlingLine string

text \<open>
  The state one invocation reads and writes: the panel's \<open>_messages\<close>, the events
  posted to the webview, the lines of the output channel, and the requests handed to
  \<open>axios.post\<close>, each in the order of occurrence.
\<close>

record panel =
  messages :: "turn list"
  posted :: "ui_event list"
  channel :: "log_line list"
  requests :: "http_request list"

record inbound =
  command :: string
  msg_text :: string
  msg_image :: "image_payload option"

definition appendLine :: "log_line \<Rightarrow> panel \<Rightarrow> panel" where
  "appendLine l s = s\<lparr>channel := channel s @ [l]\<rparr>"

text \<open>
  \<open>this._panel.webview.postMessage\<close> of a webview that takes the event, as the bridge
  promises to (delivery of every event). A webview that throws instead is
  \<open>postMessage_via\<close> below.
\<close>

definition postMessage :: "ui_event \<Rightarrow> panel \<Rightarrow> panel" where
  "postMessage e s = s\<lparr>posted := posted s @ [e]\<rparr>"

definition push :: "turn \<Rightarrow> panel \<Rightarrow> panel" where
  "push t s = s\<lparr>messages := messages s @ [t]\<rparr>"

definition axios_post :: "network \<Rightarrow> http_request \<Rightarrow> panel \<Rightarrow> axios_outcome \<times> panel" where
  "axios_post net req s = (net req, s\<lparr>requests := requests s @ [req]\<rparr>)"

text \<open>\<open>error instanceof Error ? error.message : String(error)\<close>\<close>

fun error_text :: "thrown \<Rightarrow> string" where
  "error_text (ErrorObj m) = m"
| "error_text (AxiosError e) = ax_message e"
| "error_text (NonError s) = s"

section \<open>\<open>AIPanel._callOpenAI\<close>\<close>

definition formatMessages :: "turn list \<Rightarrow> formatted_message list" where
  "formatMessages msgs = map (\<lambda>msg. \<lparr>fm_role = role msg, fm_content = content msg\<rparr>) msgs"

definition buildRequest :: "config \<Rightarrow> turn list \<Rightarrow> http_request" where
  "buildRequest cfg msgs =
     \<lparr>url = OPENAI_API_ENDPOINT cfg,
      body = \<lparr>req_model = model cfg, req_messages = formatMessages msgs,
              req_max_tokens = MAX_TOKENS cfg\<rparr>,
      content_type = ''application/json'',
      authorization = ''Bearer '' @ apiKey cfg\<rparr>"

text \<open>The \<open>try\<close> block of \<open>_callOpenAI\<close>: the returned content, or the value thrown.\<close>

definition callOpenAI_try ::
  "config \<Rightarrow> network \<Rightarrow> turn list \<Rightarrow> panel \<Rightarrow> (thrown + string) \<times> panel" where
  "callOpenAI_try cfg net msgs s =
     (let s1 = appendLine CallingAPI s;
          formattedMessages = formatMessages msgs;
          s2 = appendLine (SendingRequestTo (OPENAI_API_ENDPOINT cfg)) s1;
          s3 = appendLine (ModelLine (model cfg)) s2;
          s4 = appendLine (MessagesCount (length formattedMessages)) s3;
          (settled, s5) = axios_post net (buildRequest cfg msgs) s4
      in case settled of
           Rejected e \<Rightarrow> (Inl e, s5)
         | Resolved d \<Rightarrow>
             (let s6 = appendLine ReceivedResponse s5
              in case choices d of
                   Some (c # cs) \<Rightarrow> (Inr (cm_content (message c)), s6)
                 | Some [] \<Rightarrow> (Inl (ErrorObj ''No response from OpenAI API''), s6)
                 | None \<Rightarrow> (Inl (ErrorObj ''No response from OpenAI API''), s6)))"

text \<open>\<open>error.response?.data?.error?.message || error.message\<close>\<close>

definition providerMessage :: "axios_error \<Rightarrow> string option" where
  "providerMessage e =
     Option.bind (response e) (\<lambda>r. Option.bind (data r) (\<lambda>d. map_option err_message (error d)))"

definition extractMessage :: "axios_error \<Rightarrow> string" where
  "extractMessage e =
     (case providerMessage e of
        Some m \<Rightarrow> if m \<noteq> [] then m else ax_message e
      | None \<Rightarrow> ax_message e)"

text \<open>The whole of \<open>_callOpenAI\<close>: the \<open>catch\<close> clause rethrows every error wrapped.\<close>

definition callOpenAI ::
  "config \<Rightarrow> network \<Rightarrow> turn list \<Rightarrow> panel \<Rightarrow> (thrown + string) \<times> panel" where
  "callOpenAI cfg net msgs s =
     (case callOpenAI_try cfg net msgs s of
        (Inr txt, s') \<Rightarrow> (Inr txt, s')
      | (Inl (AxiosError e), s') \<Rightarrow>
          (let statusCode = map_option status (response e);
               msg = extractMessage e;
               responseData = Option.bind (response e) data;
               s1 = appendLine (ApiErrorLine statusCode msg) s';
               s2 = appendLine (ResponseDataLine responseData) s1
           in (Inl (ErrorObj (''API error: '' @ msg)), s2))
      | (Inl err, s') \<Rightarrow>
          (let errorMessage = error_text err;
               s1 = appendLine (ErrorCallingLine errorMessage) s'
           in (Inl (ErrorObj (''Error calling OpenAI API: '' @ errorMessage)), s1)))"

section \<open>\<open>AIPanel._handleQuestion\<close> and the webview message handler\<close>

definition userMessage :: "nat \<Rightarrow> string \<Rightarrow> turn" where
  "userMessage now question =
     \<lparr>role = User, content = question, timestamp = Some now, image' = None\<rparr>"

definition aiMessage :: "string \<Rightarrow> turn" where
  "aiMessage resp = \<lparr>role = Assistant, content = resp, timestamp = None, image' = None\<rparr>"

text \<open>
  The \<open>try\<close> block of \<open>_handleQuestion\<close>; \<open>now\<close> is the value of \<open>Date.now()\<close>.
  \<open>if (response)\<close> holds exactly for a non-empty string.
\<close>

definition handleQuestion_try ::
  "config \<Rightarrow> network \<Rightarrow> nat \<Rightarrow> string \<Rightarrow> panel \<Rightarrow> (thrown + unit) \<times> panel" where
  "handleQuestion_try cfg net now question s =
     (let s1 = appendLine (ReceivedQuestion question) s
      in if apiKey cfg = []
         then (Inl (ErrorObj ''OpenAI API key is not configured. Please set it in your settings.''), s1)
         else
           (let s2 = push (userMessage now question) s1
            in case callOpenAI cfg net (messages s2) s2 of
                 (Inl err, s3) \<Rightarrow> (Inl err, s3)
               | (Inr resp, s3) \<Rightarrow>
                   if resp \<noteq> []
                   then (Inr (), postMessage \<lparr>ev_type = response_event, ev_content = resp\<rparr>
                                  (push (aiMessage resp) s3))
                   else (Inr (), s3)))"

definition handleQuestion :: "config \<Rightarrow> network \<Rightarrow> nat \<Rightarrow> string \<Rightarrow> panel \<Rightarrow> panel" where
  "handleQuestion cfg net now question s =
     (case handleQuestion_try cfg net now question s of
        (Inr u, s') \<Rightarrow> s'
      | (Inl err, s') \<Rightarrow>
          (let errorMessage = error_text err;
               s1 = appendLine (ErrorHandlingLine errorMessage) s'
           in postMessage \<lparr>ev_type = error_event, ev_content = errorMessage\<rparr> s1))"

text \<open>
  The callback registered with \<open>onDidReceiveMessage\<close>: only \<open>message.text\<close> is handed
  on.
\<close>

definition onDidReceiveMessage :: "config \<Rightarrow> network \<Rightarrow> nat \<Rightarrow> inbound \<Rightarrow> panel \<Rightarrow> panel" where
  "onDidReceiveMessage cfg net now msg s =
     (if command msg = ''askQuestion'' then handleQuestion cfg net now (msg_text msg) s else s)"

text \<open>
  The handler against a webview that can throw. What the call
  \<open>this._panel.webview.postMessage(e)\<close> does is a parameter: \<open>None\<close> when the webview
  takes the event, \<open>Some t\<close> when the call throws \<open>t\<close> (as for a panel that has been
  closed in the meantime). The call at the end of the \<open>try\<close> block is inside the
  \<open>try\<close>; the call in the \<open>catch\<close> clause is guarded by nothing. The result
  \<open>Inl t\<close> of \<open>handleQuestion_via\<close> is the promise of \<open>_handleQuestion\<close> rejecting
  with \<open>t\<close>, \<open>Inr ()\<close> is the promise resolving.
\<close>

type_synonym webview = "ui_event \<Rightarrow> thrown option"

definition postMessage_via :: "webview \<Rightarrow> ui_event \<Rightarrow> panel \<Rightarrow> (thrown + unit) \<times> panel" where
  "postMessage_via wv e s =
     (case wv e of None \<Rightarrow> (Inr (), postMessage e s) | Some t \<Rightarrow> (Inl t, s))"

definition handleQuestion_try_via ::
  "webview \<Rightarrow> config \<Rightarrow> network \<Rightarrow> nat \<Rightarrow> string \<Rightarrow> panel \<Rightarrow> (thrown + unit) \<times> panel" where
  "handleQuestion_try_via wv cfg net now question s =
     (let s1 = appendLine (ReceivedQuestion question) s
      in if apiKey cfg = []
         then (Inl (ErrorObj ''OpenAI API key is not configured. Please set it in your settings.''), s1)
         else
           (let s2 = push (userMessage now question) s1
            in case callOpenAI cfg net (messages s2) s2 of
                 (Inl err, s3) \<Rightarrow> (Inl err, s3)
               | (Inr resp, s3) \<Rightarrow>
                   if resp \<noteq> []
                   then postMessage_via wv \<lparr>ev_type = response_event, ev_content = resp\<rparr>
                          (push (aiMessage resp) s3)
                   else (Inr (), s3)))"

definition handleQuestion_via ::
  "webview \<Rightarrow> config \<Rightarrow> network \<Rightarrow> nat \<Rightarrow> string \<Rightarrow> panel \<Rightarrow> (thrown + unit) \<times> panel" where
  "handleQuestion_via wv cfg net now question s =
     (case handleQuestion_try_via wv cfg net now question s of
        (Inr u, s') \<Rightarrow> (Inr (), s')
      | (Inl err, s') \<Rightarrow>
          (let errorMessage = error_text err;
               s1 = appendLine (ErrorHandlingLine errorMessage) s'
           in postMessage_via wv \<lparr>ev_type = error_event, ev_content = errorMessage\<rparr> s1))"

text \<open>
  Successive invocations, each run to completion before the next one starts; every
  invocation comes with the configuration, the network and the clock it meets.
\<close>

fun handleQuestions :: "(config \<times> network \<times> nat \<times> string) list \<Rightarrow> panel \<Rightarrow> panel" where
  "handleQuestions [] s = s"
| "handleQuestions ((cfg, net, now, question) # calls) s =
     handleQuestions calls (handleQuestion cfg net now question s)"

text \<open>The state in which \<open>_handleQuestion\<close> calls \<open>_callOpenAI\<close>, once the key check has passed.\<close>

definition beforeCall :: "nat \<Rightarrow> string \<Rightarrow> panel \<Rightarrow> panel" where
  "beforeCall now question s = push (userMessage now question) (appendLine (ReceivedQuestion question) s)"

text \<open>The result of the call of \<open>_callOpenAI\<close> that an invocation of \<open>_handleQuestion\<close> makes.\<close>

definition clientResult :: "config \<Rightarrow> network \<Rightarrow> nat \<Rightarrow> string \<Rightarrow> panel \<Rightarrow> thrown + string" where
  "clientResult cfg net now question s =
     fst (callOpenAI cfg net (messages (beforeCall now question s)) (beforeCall now question s))"

section \<open>Concrete configurations, providers and a fresh panel\<close>

definition configured :: config where
  "configured = \<lparr>apiKey = ''sk-test'', model = ''gpt-4'',
     OPENAI_API_ENDPOINT = ''https://api.openai.com/v1/chat/completions'', MAX_TOKENS = 1000\<rparr>"

definition unconfigured :: config where
  "unconfigured = configured\<lparr>apiKey := []\<rparr>"

definition freshPanel :: panel where
  "freshPanel = \<lparr>messages = [], posted = [], channel = [], requests = []\<rparr>"

text \<open>A provider that answers every request with one choice of the given content.\<close>

definition answering :: "string \<Rightarrow> network" where
  "answering txt req =
     Resolved \<lparr>choices = Some [\<lparr>message = \<lparr>cm_role = ''assistant'', cm_content = txt\<rparr>\<rparr>],
               error = None\<rparr>"

text \<open>A provider that answers \<open>{choices: []}\<close>.\<close>

definition noChoices :: network where
  "noChoices req = Resolved \<lparr>choices = Some [], error = None\<rparr>"

text \<open>An HTTP 401 whose body is \<open>{error: {message: m, ...}}\<close>.\<close>

definition unauthorized :: "string \<Rightarrow> axios_error" where
  "unauthorized m =
     \<lparr>ax_message = ''Request failed with status code 401'',
      response = Some \<lparr>status = 401,
        data = Some \<lparr>choices = None,
          error = Some \<lparr>err_message = m, err_type = ''invalid_request_error'',
                        err_code = None\<rparr>\<rparr>\<rparr>\<rparr>"

definition rejecting :: "thrown \<Rightarrow> network" where
  "rejecting e req = Rejected e"

text \<open>A submission from the webview with an image attached.\<close>

definition withImage :: inbound where
  "withImage = \<lparr>command = ''askQuestion'', msg_text = ''What is this?'',
     msg_image = Some \<lparr>img_data = ''data:image/png;base64,AAAA'', img_type = ''image/png'',
                       img_name = Some ''shot.png''\<rparr>\<rparr>"

text \<open>
  Webviews: one that takes every event, one that throws on every call, and one that
  throws a value that is no \<open>Error\<close> on a \<open>response\<close> event only.
\<close>

definition accepting :: webview where
  "accepting e = None"



section \<open>Frame and result lemmas\<close>

lemma appendLine_simps [simp]:
  "messages (appendLine l s) = messages s"
  "posted (appendLine l s) = posted s"
  "requests (appendLine l s) = requests s"
  "channel (appendLine l s) = channel s @ [l]"
  by (simp_all add: appendLine_def)

lemma postMessage_simps [simp]:
  "messages (postMessage e s) = messages s"
  "posted (postMessage e s) = posted s @ [e]"
  "requests (postMessage e s) = requests s"
  "channel (postMessage e s) = channel s"
  by (simp_all add: postMessage_def)

lemma push_simps [simp]:
  "messages (push t s) = messages s @ [t]"
  "posted (push t s) = posted s"
  "requests (push t s) = requests s"
  "channel (push t s) = channel s"
  by (simp_all add: push_def)

lemma axios_post_simps [simp]:
  "fst (axios_post net req s) = net req"
  "messages (snd (axios_post net req s)) = messages s"
  "posted (snd (axios_post net req s)) = posted s"
  "requests (snd (axios_post net req s)) = requests s @ [req]"
  "channel (snd (axios_post net req s)) = channel s"
  by (simp_all add: axios_post_def)

lemma callOpenAI_try_frame:
  "messages (snd (callOpenAI_try cfg net msgs s)) = messages s"
  "posted (snd (callOpenAI_try cfg net msgs s)) = posted s"
  "requests (snd (callOpenAI_try cfg net msgs s)) = requests s @ [buildRequest cfg msgs]"
  by (simp_all add: callOpenAI_try_def Let_def axios_post_def
      split: axios_outcome.splits option.splits list.splits)

lemma callOpenAI_try_result:
  "fst (callOpenAI_try cfg net msgs s) =
     (case net (buildRequest cfg msgs) of
        Rejected e \<Rightarrow> Inl e
      | Resolved d \<Rightarrow>
          (case choices d of
             Some (c # cs) \<Rightarrow> Inr (cm_content (message c))
           | Some [] \<Rightarrow> Inl (ErrorObj ''No response from OpenAI API'')
           | None \<Rightarrow> Inl (ErrorObj ''No response from OpenAI API'')))"
  by (simp add: callOpenAI_try_def Let_def axios_post_def
      split: axios_outcome.splits option.splits list.splits)

lemma callOpenAI_frame:
  "messages (snd (callOpenAI cfg net msgs s)) = messages s"
  "posted (snd (callOpenAI cfg net msgs s)) = posted s"
  "requests (snd (callOpenAI cfg net msgs s)) = requests s @ [buildRequest cfg msgs]"
  using callOpenAI_try_frame [of cfg net msgs s]
  by (auto simp add: callOpenAI_def Let_def split: prod.splits sum.splits thrown.splits)

lemma callOpenAI_result:
  "fst (callOpenAI cfg net msgs s) =
     (case fst (callOpenAI_try cfg net msgs s) of
        Inr txt \<Rightarrow> Inr txt
      | Inl (AxiosError e) \<Rightarrow> Inl (ErrorObj (''API error: '' @ extractMessage e))
      | Inl err \<Rightarrow> Inl (ErrorObj (''Error calling OpenAI API: '' @ error_text err)))"
  by (auto simp add: callOpenAI_def Let_def split: prod.splits sum.splits thrown.splits)

lemma callOpenAI_result_indep:
  "fst (callOpenAI cfg net msgs s) = fst (callOpenAI cfg net msgs s')"
  by (simp add: callOpenAI_result callOpenAI_try_result)

lemma handleQuestion_no_key:
  assumes "apiKey cfg = []"
  shows "handleQuestion cfg net now question s =
     postMessage \<lparr>ev_type = error_event,
        ev_content = ''OpenAI API key is not configured. Please set it in your settings.''\<rparr>
       (appendLine (ErrorHandlingLine ''OpenAI API key is not configured. Please set it in your settings.'')
         (appendLine (ReceivedQuestion question) s))"
  using assms by (simp add: handleQuestion_def handleQuestion_try_def Let_def)

lemma handleQuestion_with_key:
  assumes "apiKey cfg \<noteq> []"
  shows "handleQuestion cfg net now question s =
     (case callOpenAI cfg net (messages (beforeCall now question s)) (beforeCall now question s) of
        (Inl err, s3) \<Rightarrow>
           postMessage \<lparr>ev_type = error_event, ev_content = error_text err\<rparr>
             (appendLine (ErrorHandlingLine (error_text err)) s3)
      | (Inr resp, s3) \<Rightarrow>
           if resp \<noteq> []
           then postMessage \<lparr>ev_type = response_event, ev_content = resp\<rparr> (push (aiMessage resp) s3)
           else s3)"
  using assms
  by (simp add: handleQuestion_def handleQuestion_try_def beforeCall_def Let_def
      split: prod.splits sum.splits)

lemma clientResult_eq:
  "clientResult cfg net now question s =
     (case net (buildRequest cfg (messages s @ [userMessage now question])) of
        Rejected (AxiosError e) \<Rightarrow> Inl (ErrorObj (''API error: '' @ extractMessage e))
      | Rejected (ErrorObj m) \<Rightarrow> Inl (ErrorObj (''Error calling OpenAI API: '' @ m))
      | Rejected (NonError m) \<Rightarrow> Inl (ErrorObj (''Error calling OpenAI API: '' @ m))
      | Resolved d \<Rightarrow>
          (case choices d of
             Some (c # cs) \<Rightarrow> Inr (cm_content (message c))
           | Some [] \<Rightarrow> Inl (ErrorObj ''Error calling OpenAI API: No response from OpenAI API'')
           | None \<Rightarrow> Inl (ErrorObj ''Error calling OpenAI API: No response from OpenAI API'')))"
  by (simp add: clientResult_def callOpenAI_result callOpenAI_try_result beforeCall_def
      split: axios_outcome.splits thrown.splits option.splits list.splits)

lemma handleQuestion_success:
  assumes "apiKey cfg \<noteq> []" "clientResult cfg net now question s = Inr resp" "resp \<noteq> []"
  shows "messages (handleQuestion cfg net now question s) =
           messages s @ [userMessage now question, aiMessage resp]"
    and "posted (handleQuestion cfg net now question s) =
           posted s @ [\<lparr>ev_type = response_event, ev_content = resp\<rparr>]"
proof -
  let ?b = "beforeCall now question s"
  obtain r s3 where c: "callOpenAI cfg net (messages ?b) ?b = (r, s3)"
    by (cases "callOpenAI cfg net (messages ?b) ?b")
  from c assms(2) have r: "r = Inr resp" by (simp add: clientResult_def)
  from c callOpenAI_frame [of cfg net "messages ?b" ?b]
  have f: "messages s3 = messages ?b" "posted s3 = posted ?b" by simp_all
  show "messages (handleQuestion cfg net now question s) =
           messages s @ [userMessage now question, aiMessage resp]"
    using assms(1,3) c r f by (simp add: handleQuestion_with_key beforeCall_def)
  show "posted (handleQuestion cfg net now question s) =
           posted s @ [\<lparr>ev_type = response_event, ev_content = resp\<rparr>]"
    using assms(1,3) c r f by (simp add: handleQuestion_with_key beforeCall_def)
qed

lemma handleQuestion_empty:
  assumes "apiKey cfg \<noteq> []" "clientResult cfg net now question s = Inr []"
  shows "messages (handleQuestion cfg net now question s) = messages s @ [userMessage now question]"
    and "posted (handleQuestion cfg net now question s) = posted s"
proof -
  let ?b = "beforeCall now question s"
  obtain r s3 where c: "callOpenAI cfg net (messages ?b) ?b = (r, s3)"
    by (cases "callOpenAI cfg net (messages ?b) ?b")
  from c assms(2) have r: "r = Inr []" by (simp add: clientResult_def)
  from c callOpenAI_frame [of cfg net "messages ?b" ?b]
  have f: "messages s3 = messages ?b" "posted s3 = posted ?b" by simp_all
  show "messages (handleQuestion cfg net now question s) = messages s @ [userMessage now question]"
    using assms(1) c r f by (simp add: handleQuestion_with_key beforeCall_def)
  show "posted (handleQuestion cfg net now question s) = posted s"
    using assms(1) c r f by (simp add: handleQuestion_with_key beforeCall_def)
qed

lemma handleQuestion_failure:
  assumes "apiKey cfg \<noteq> []" "clientResult cfg net now question s = Inl err"
  shows "messages (handleQuestion cfg net now question s) = messages s @ [userMessage now question]"
    and "posted (handleQuestion cfg net now question s) =
           posted s @ [\<lparr>ev_type = error_event, ev_content = error_text err\<rparr>]"
proof -
  let ?b = "beforeCall now question s"
  obtain r s3 where c: "callOpenAI cfg net (messages ?b) ?b = (r, s3)"
    by (cases "callOpenAI cfg net (messages ?b) ?b")
  from c assms(2) have r: "r = Inl err" by (simp add: clientResult_def)
  from c callOpenAI_frame [of cfg net "messages ?b" ?b]
  have f: "messages s3 = messages ?b" "posted s3 = posted ?b" by simp_all
  show "messages (handleQuestion cfg net now question s) = messages s @ [userMessage now question]"
    using assms(1) c r f by (simp add: handleQuestion_with_key beforeCall_def)
  show "posted (handleQuestion cfg net now question s) =
           posted s @ [\<lparr>ev_type = error_event, ev_content = error_text err\<rparr>]"
    using assms(1) c r f by (simp add: handleQuestion_with_key beforeCall_def)
qed

lemma handleQuestion_requests:
  "requests (handleQuestion cfg net now question s) =
     (if apiKey cfg = [] then requests s
      else requests s @ [buildRequest cfg (messages s @ [userMessage now question])])"
proof (cases "apiKey cfg = []")
  case True
  then show ?thesis by (simp add: handleQuestion_no_key)
next
  case False
  let ?b = "beforeCall now question s"
  obtain r s3 where c: "callOpenAI cfg net (messages ?b) ?b = (r, s3)"
    by (cases "callOpenAI cfg net (messages ?b) ?b")
  from c callOpenAI_frame [of cfg net "messages ?b" ?b]
  have f: "requests s3 = requests ?b @ [buildRequest cfg (messages ?b)]" by simp
  show ?thesis
    using False c f by (cases r) (simp_all add: handleQuestion_with_key beforeCall_def)
qed

lemma clientResult_cases:
  "(\<exists>m. clientResult cfg net now question s = Inl (ErrorObj m)) \<or>
   (\<exists>resp. clientResult cfg net now question s = Inr resp)"
  by (simp add: clientResult_eq split: axios_outcome.splits thrown.splits option.splits list.splits)

lemma handleQuestion_messages_cases:
  "messages (handleQuestion cfg net now question s) = messages s \<or>
   messages (handleQuestion cfg net now question s) = messages s @ [userMessage now question] \<or>
   (\<exists>resp. messages (handleQuestion cfg net now question s) =
        messages s @ [userMessage now question, aiMessage resp])"
proof (cases "apiKey cfg = []")
  case True
  then show ?thesis by (simp add: handleQuestion_no_key)
next
  case False
  show ?thesis
  proof (cases "clientResult cfg net now question s")
    case (Inl err)
    with False show ?thesis by (simp add: handleQuestion_failure)
  next
    case (Inr resp)
    with False show ?thesis
      by (cases "resp = []") (auto simp add: handleQuestion_empty handleQuestion_success)
  qed
qed

lemma handleQuestion_prefix:
  "prefix (messages s) (messages (handleQuestion cfg net now question s))"
  using handleQuestion_messages_cases [of cfg net now question s] by auto

lemma handleQuestions_prefix:
  "prefix (messages s) (messages (handleQuestions calls s))"
proof (induction calls arbitrary: s)
  case Nil
  show ?case by simp
next
  case (Cons c calls)
  obtain cfg net now question where c: "c = (cfg, net, now, question)"
    by (cases c) auto
  have "prefix (messages s) (messages (handleQuestion cfg net now question s))"
    by (rule handleQuestion_prefix)
  also have "prefix \<dots> (messages (handleQuestions calls (handleQuestion cfg net now question s)))"
    by (rule Cons.IH)
  finally show ?case by (simp add: c)
qed

lemma handleQuestion_try_result:
  "fst (handleQuestion_try cfg net now question s) =
     (if apiKey cfg = []
      then Inl (ErrorObj ''OpenAI API key is not configured. Please set it in your settings.'')
      else case clientResult cfg net now question s of Inl err \<Rightarrow> Inl err | Inr resp \<Rightarrow> Inr ())"
  by (simp add: handleQuestion_try_def clientResult_def beforeCall_def Let_def
      split: prod.splits sum.splits)

text \<open>
  With a webview that takes every event the handler never rejects, and its state is the
  one of \<open>handleQuestion\<close>.
\<close>

lemma postMessage_via_accepting:
  "postMessage_via accepting e s = (Inr (), postMessage e s)"
  by (simp add: postMessage_via_def accepting_def)

lemma handleQuestion_try_via_accepting:
  "handleQuestion_try_via accepting cfg net now question s = handleQuestion_try cfg net now question s"
  by (simp add: handleQuestion_try_via_def handleQuestion_try_def postMessage_via_accepting Let_def
      split: prod.splits sum.splits)

lemma handleQuestion_via_accepting:
  "handleQuestion_via accepting cfg net now question s = (Inr (), handleQuestion cfg net now question s)"
  by (simp add: handleQuestion_via_def handleQuestion_def handleQuestion_try_via_accepting
      postMessage_via_accepting Let_def split: prod.splits sum.splits)

lemma postMessage_via_posted:
  "posted (snd (postMessage_via wv e s)) = (case wv e of None \<Rightarrow> posted s @ [e] | Some t \<Rightarrow> posted s)"
  by (simp add: postMessage_via_def split: option.splits)




section \<open>The claims\<close>

text \<open>
  Claim C1. When the API key is absent (\<open>!this._apiKey\<close>), an invocation of
  \<open>_handleQuestion\<close> leaves the message log as it was (its length grows by 0), hands no
  request to \<open>axios.post\<close>, and posts one error event whose content contains
  "API key is not configured".
\<close>
theorem missing_credential_drops_input:
  assumes "apiKey cfg = []"
  shows "messages (handleQuestion cfg net now question s) = messages s \<and>
         length (messages (handleQuestion cfg net now question s)) = length (messages s) + 0 \<and>
         requests (handleQuestion cfg net now question s) = requests s \<and>
         posted (handleQuestion cfg net now question s) =
           posted s @ [\<lparr>ev_type = error_event,
             ev_content = ''OpenAI '' @ ''API key is not configured'' @ ''. Please set it in your settings.''\<rparr>]"
  using assms by (simp add: handleQuestion_no_key)

text \<open>C1 at an unconfigured panel: no turn, no request, the configuration error event.\<close>
theorem missing_credential_drops_input_witness:
  "apiKey unconfigured = [] \<and>
   messages (handleQuestion unconfigured (answering ''42'') 5 ''What is 6*7?'' freshPanel) = [] \<and>
   requests (handleQuestion unconfigured (answering ''42'') 5 ''What is 6*7?'' freshPanel) = [] \<and>
   posted (handleQuestion unconfigured (answering ''42'') 5 ''What is 6*7?'' freshPanel) =
     [\<lparr>ev_type = error_event,
       ev_content = ''OpenAI API key is not configured. Please set it in your settings.''\<rparr>]"
  using missing_credential_drops_input [of unconfigured "answering ''42''" 5 "''What is 6*7?''" freshPanel]
  by (simp add: unconfigured_def freshPanel_def)

text \<open>
  Claim C2 as stated fails: with a key configured and a provider whose first choice has
  the empty string as content, \<open>_callOpenAI\<close> returns successfully, yet the log grows by
  one turn only and no event is posted.
\<close>
theorem success_with_empty_text_counterexample:
  "apiKey configured \<noteq> [] \<and>
   clientResult configured (answering []) 5 ''ping'' freshPanel = Inr [] \<and>
   length (messages (handleQuestion configured (answering []) 5 ''ping'' freshPanel)) \<noteq>
     length (messages freshPanel) + 2 \<and>
   posted (handleQuestion configured (answering []) 5 ''ping'' freshPanel) = []"
proof -
  have k: "apiKey configured \<noteq> []" by (simp add: configured_def)
  have r: "clientResult configured (answering []) 5 ''ping'' freshPanel = Inr []"
    by (simp add: clientResult_eq answering_def)
  show ?thesis
    using k r handleQuestion_empty [OF k r] by (simp add: freshPanel_def)
qed

text \<open>
  Claim C2, amended. When the API key is present and \<open>_callOpenAI\<close> returns a non-empty
  text, the log grows by exactly two turns, the user turn and then an assistant turn with
  the returned text as content, and one \<open>response\<close> event carrying that text is posted.
\<close>
theorem success_appends_user_then_assistant:
  assumes "apiKey cfg \<noteq> []"
    and "clientResult cfg net now question s = Inr resp"
    and "resp \<noteq> []"
  shows "messages (handleQuestion cfg net now question s) =
           messages s @ [\<lparr>role = User, content = question, timestamp = Some now, image' = None\<rparr>,
                         \<lparr>role = Assistant, content = resp, timestamp = None, image' = None\<rparr>] \<and>
         length (messages (handleQuestion cfg net now question s)) = length (messages s) + 2 \<and>
         posted (handleQuestion cfg net now question s) =
           posted s @ [\<lparr>ev_type = response_event, ev_content = resp\<rparr>]"
  using handleQuestion_success [OF assms] by (simp add: userMessage_def aiMessage_def)

text \<open>C2 (amended) at the provider answering "42" to "What is 6*7?".\<close>
theorem success_appends_user_then_assistant_witness:
  "apiKey configured \<noteq> [] \<and>
   clientResult configured (answering ''42'') 5 ''What is 6*7?'' freshPanel = Inr ''42'' \<and>
   ''42'' \<noteq> [] \<and>
   messages (handleQuestion configured (answering ''42'') 5 ''What is 6*7?'' freshPanel) =
     [\<lparr>role = User, content = ''What is 6*7?'', timestamp = Some 5, image' = None\<rparr>,
      \<lparr>role = Assistant, content = ''42'', timestamp = None, image' = None\<rparr>] \<and>
   posted (handleQuestion configured (answering ''42'') 5 ''What is 6*7?'' freshPanel) =
     [\<lparr>ev_type = response_event, ev_content = ''42''\<rparr>]"
proof -
  have k: "apiKey configured \<noteq> []" by (simp add: configured_def)
  have r: "clientResult configured (answering ''42'') 5 ''What is 6*7?'' freshPanel = Inr ''42''"
    by (simp add: clientResult_eq answering_def)
  have n: "''42'' \<noteq> []" by simp
  show ?thesis
    using k r success_appends_user_then_assistant [OF k r n] by (simp add: freshPanel_def)
qed

text \<open>
  Claim C3. When the API key is present and the call of \<open>_callOpenAI\<close> fails, the log
  grows by exactly one turn, the user turn, no assistant turn is appended, and one
  \<open>error\<close> event carrying the message of the failure is posted.
\<close>
theorem failure_appends_user_turn_only:
  assumes "apiKey cfg \<noteq> []"
    and "clientResult cfg net now question s = Inl err"
  shows "messages (handleQuestion cfg net now question s) =
           messages s @ [\<lparr>role = User, content = question, timestamp = Some now, image' = None\<rparr>] \<and>
         length (messages (handleQuestion cfg net now question s)) = length (messages s) + 1 \<and>
         posted (handleQuestion cfg net now question s) =
           posted s @ [\<lparr>ev_type = error_event, ev_content = error_text err\<rparr>]"
  using handleQuestion_failure [OF assms] by (simp add: userMessage_def)

text \<open>C3 at a transport failure.\<close>
theorem failure_appends_user_turn_only_witness:
  "apiKey configured \<noteq> [] \<and>
   clientResult configured (rejecting (ErrorObj ''socket hang up'')) 5 ''ping'' freshPanel =
     Inl (ErrorObj ''Error calling OpenAI API: socket hang up'') \<and>
   messages (handleQuestion configured (rejecting (ErrorObj ''socket hang up'')) 5 ''ping'' freshPanel) =
     [\<lparr>role = User, content = ''ping'', timestamp = Some 5, image' = None\<rparr>] \<and>
   posted (handleQuestion configured (rejecting (ErrorObj ''socket hang up'')) 5 ''ping'' freshPanel) =
     [\<lparr>ev_type = error_event, ev_content = ''Error calling OpenAI API: socket hang up''\<rparr>]"
proof -
  have k: "apiKey configured \<noteq> []" by (simp add: configured_def)
  have r: "clientResult configured (rejecting (ErrorObj ''socket hang up'')) 5 ''ping'' freshPanel =
     Inl (ErrorObj ''Error calling OpenAI API: socket hang up'')"
    by (simp add: clientResult_eq rejecting_def)
  show ?thesis
    using k r failure_appends_user_turn_only [OF k r] by (simp add: freshPanel_def)
qed

text \<open>
  Claim C4 says that the user turn carries the submitted image. At a submission with an
  image attached, the turn that the message handler appends has role \<open>user\<close>, the
  submitted text and the current time, but no image: the handler passes \<open>message.text\<close>
  alone to \<open>_handleQuestion\<close>.
\<close>
theorem submitted_image_is_dropped:
  "msg_image withImage =
     Some \<lparr>img_data = ''data:image/png;base64,AAAA'', img_type = ''image/png'',
           img_name = Some ''shot.png''\<rparr> \<and>
   apiKey configured \<noteq> [] \<and>
   messages (onDidReceiveMessage configured (answering ''A cat.'') 5 withImage freshPanel) =
     [\<lparr>role = User, content = ''What is this?'', timestamp = Some 5, image' = None\<rparr>,
      \<lparr>role = Assistant, content = ''A cat.'', timestamp = None, image' = None\<rparr>]"
proof -
  have k: "apiKey configured \<noteq> []" by (simp add: configured_def)
  have r: "clientResult configured (answering ''A cat.'') 5 ''What is this?'' freshPanel = Inr ''A cat.''"
    by (simp add: clientResult_eq answering_def)
  have n: "''A cat.'' \<noteq> []" by simp
  show ?thesis
    using k handleQuestion_success(1) [OF k r n]
    by (simp add: onDidReceiveMessage_def withImage_def freshPanel_def userMessage_def aiMessage_def)
qed

text \<open>
  Claim C5. The messages of the request are the \<open>{role, content}\<close> projections of the
  turns handed to \<open>_callOpenAI\<close>, all of them and in their order; timestamps and images
  have no influence on the request; the request handed to \<open>axios.post\<close> is this
  projection, and in \<open>_handleQuestion\<close> it is taken of the whole log, the new user turn
  included. Being a function of the log, the projection of one log is one envelope.
\<close>
theorem envelope_is_projection_of_log:
  "req_messages (body (buildRequest cfg msgs)) =
     map (\<lambda>t. \<lparr>fm_role = role t, fm_content = content t\<rparr>) msgs \<and>
   map fm_role (req_messages (body (buildRequest cfg msgs))) = map role msgs \<and>
   map fm_content (req_messages (body (buildRequest cfg msgs))) = map content msgs \<and>
   buildRequest cfg (map (\<lambda>t. t\<lparr>timestamp := ts t, image' := im t\<rparr>) msgs) = buildRequest cfg msgs \<and>
   requests (snd (callOpenAI cfg net msgs s)) = requests s @ [buildRequest cfg msgs] \<and>
   requests (handleQuestion cfg net now question s) =
     (if apiKey cfg = [] then requests s
      else requests s @ [buildRequest cfg (messages s @ [userMessage now question])])"
  by (simp add: buildRequest_def formatMessages_def callOpenAI_frame handleQuestion_requests
      comp_def)

text \<open>C5 at a log of a user turn with timestamp and image and an assistant turn.\<close>
theorem envelope_is_projection_of_log_witness:
  "req_messages (body (buildRequest configured
       [\<lparr>role = User, content = ''What is this?'', timestamp = Some 5,
          image' = msg_image withImage\<rparr>,
        \<lparr>role = Assistant, content = ''A cat.'', timestamp = None, image' = None\<rparr>])) =
     [\<lparr>fm_role = User, fm_content = ''What is this?''\<rparr>,
      \<lparr>fm_role = Assistant, fm_content = ''A cat.''\<rparr>] \<and>
   requests (handleQuestion configured (answering ''42'') 5 ''What is 6*7?'' freshPanel) =
     [buildRequest configured [userMessage 5 ''What is 6*7?'']]"
  using envelope_is_projection_of_log [of configured
      "[\<lparr>role = User, content = ''What is this?'', timestamp = Some 5,
          image' = msg_image withImage\<rparr>,
        \<lparr>role = Assistant, content = ''A cat.'', timestamp = None, image' = None\<rparr>]"]
    envelope_is_projection_of_log [of configured "[]" _ _ "answering ''42''" freshPanel 5 "''What is 6*7?''"]
  by (simp add: configured_def freshPanel_def)

text \<open>
  Claim C6 as stated fails: on \<open>{choices: []}\<close> the failure of \<open>_callOpenAI\<close> does not
  carry the message "No response from API", and neither does the posted event.
\<close>
theorem empty_choices_message_counterexample:
  "noChoices (buildRequest configured [userMessage 5 ''ping'']) =
     Resolved \<lparr>choices = Some [], error = None\<rparr> \<and>
   fst (callOpenAI configured noChoices [userMessage 5 ''ping''] freshPanel) \<noteq>
     Inl (ErrorObj ''No response from API'') \<and>
   posted (handleQuestion configured noChoices 5 ''ping'' freshPanel) \<noteq>
     [\<lparr>ev_type = error_event, ev_content = ''No response from API''\<rparr>]"
proof -
  have k: "apiKey configured \<noteq> []" by (simp add: configured_def)
  have r: "clientResult configured noChoices 5 ''ping'' freshPanel =
     Inl (ErrorObj ''Error calling OpenAI API: No response from OpenAI API'')"
    by (simp add: clientResult_eq noChoices_def)
  show ?thesis
    using handleQuestion_failure(2) [OF k r]
    by (simp add: callOpenAI_result callOpenAI_try_result noChoices_def freshPanel_def)
qed

text \<open>
  Claim C6, amended. When the provider answers with an empty \<open>choices\<close> array,
  \<open>_callOpenAI\<close> fails with the message
  "Error calling OpenAI API: No response from OpenAI API", the posted event is an error
  event with that content, and the log grows by the user turn only.
\<close>
theorem empty_choices_is_wrapped_failure:
  assumes "apiKey cfg \<noteq> []"
    and "net (buildRequest cfg (messages s @ [userMessage now question])) = Resolved d"
    and "choices d = Some []"
  shows "clientResult cfg net now question s =
           Inl (ErrorObj ''Error calling OpenAI API: No response from OpenAI API'') \<and>
         posted (handleQuestion cfg net now question s) =
           posted s @ [\<lparr>ev_type = error_event,
                        ev_content = ''Error calling OpenAI API: No response from OpenAI API''\<rparr>] \<and>
         messages (handleQuestion cfg net now question s) =
           messages s @ [\<lparr>role = User, content = question, timestamp = Some now, image' = None\<rparr>]"
proof -
  have r: "clientResult cfg net now question s =
     Inl (ErrorObj ''Error calling OpenAI API: No response from OpenAI API'')"
    using assms(2,3) by (simp add: clientResult_eq)
  show ?thesis
    using r handleQuestion_failure [OF assms(1) r] by (simp add: userMessage_def)
qed

text \<open>C6 (amended) at the provider answering \<open>{choices: []}\<close>.\<close>
theorem empty_choices_is_wrapped_failure_witness:
  "apiKey configured \<noteq> [] \<and>
   noChoices (buildRequest configured (messages freshPanel @ [userMessage 9 ''hello''])) =
     Resolved \<lparr>choices = Some [], error = None\<rparr> \<and>
   choices \<lparr>choices = Some [], error = None\<rparr> = Some [] \<and>
   posted (handleQuestion configured noChoices 9 ''hello'' freshPanel) =
     [\<lparr>ev_type = error_event,
       ev_content = ''Error calling OpenAI API: No response from OpenAI API''\<rparr>] \<and>
   messages (handleQuestion configured noChoices 9 ''hello'' freshPanel) =
     [\<lparr>role = User, content = ''hello'', timestamp = Some 9, image' = None\<rparr>]"
proof -
  have k: "apiKey configured \<noteq> []" by (simp add: configured_def)
  have n: "noChoices (buildRequest configured (messages freshPanel @ [userMessage 9 ''hello''])) =
     Resolved \<lparr>choices = Some [], error = None\<rparr>"
    by (simp add: noChoices_def)
  have c: "choices \<lparr>choices = Some [], error = None\<rparr> = Some []" by simp
  show ?thesis
    using k n
      empty_choices_is_wrapped_failure [where net = noChoices and s = freshPanel and now = 9
        and question = "''hello''", OF k n c]
    by (simp add: freshPanel_def)
qed

text \<open>
  Claim C7 as stated fails: an HTTP 401 whose body is \<open>{error: {message: ""}}\<close> has
  the provider's message field present, yet the extracted message is the transport text.
\<close>
theorem blank_provider_message_counterexample:
  "providerMessage (unauthorized []) = Some [] \<and>
   extractMessage (unauthorized []) \<noteq> [] \<and>
   posted (handleQuestion configured (rejecting (AxiosError (unauthorized []))) 5 ''ping'' freshPanel) =
     [\<lparr>ev_type = error_event, ev_content = ''API error: Request failed with status code 401''\<rparr>]"
proof -
  have k: "apiKey configured \<noteq> []" by (simp add: configured_def)
  have r: "clientResult configured (rejecting (AxiosError (unauthorized []))) 5 ''ping'' freshPanel =
     Inl (ErrorObj (''API error: '' @ extractMessage (unauthorized [])))"
    by (simp add: clientResult_eq rejecting_def)
  show ?thesis
    using handleQuestion_failure(2) [OF k r]
    by (simp add: providerMessage_def extractMessage_def unauthorized_def freshPanel_def)
qed

text \<open>
  Claim C7, amended. On a failure of \<open>axios.post\<close> with an axios error, the extracted
  message is the message field of the provider's error body when that field is present
  and non-empty, and the transport-level error text otherwise; the posted event is an
  error event with content "API error: " followed by the extracted message, and the log
  grows by the user turn only.
\<close>
theorem http_failure_message_priority:
  assumes "apiKey cfg \<noteq> []"
    and "net (buildRequest cfg (messages s @ [userMessage now question])) = Rejected (AxiosError e)"
  shows "(\<forall>m. providerMessage e = Some m \<and> m \<noteq> [] \<longrightarrow> extractMessage e = m) \<and>
         (providerMessage e = None \<or> providerMessage e = Some [] \<longrightarrow> extractMessage e = ax_message e) \<and>
         posted (handleQuestion cfg net now question s) =
           posted s @ [\<lparr>ev_type = error_event, ev_content = ''API error: '' @ extractMessage e\<rparr>] \<and>
         messages (handleQuestion cfg net now question s) =
           messages s @ [\<lparr>role = User, content = question, timestamp = Some now, image' = None\<rparr>]"
proof -
  have r: "clientResult cfg net now question s = Inl (ErrorObj (''API error: '' @ extractMessage e))"
    using assms(2) by (simp add: clientResult_eq)
  have p: "\<forall>m. providerMessage e = Some m \<and> m \<noteq> [] \<longrightarrow> extractMessage e = m"
    by (simp add: extractMessage_def)
  have q: "providerMessage e = None \<or> providerMessage e = Some [] \<longrightarrow> extractMessage e = ax_message e"
    by (auto simp add: extractMessage_def)
  show ?thesis
    using p q handleQuestion_failure [OF assms(1) r] by (simp add: userMessage_def)
qed

text \<open>C7 (amended) at an HTTP 401 with body \<open>{error: {message: "invalid key"}}\<close>.\<close>
theorem http_failure_message_priority_witness:
  "apiKey configured \<noteq> [] \<and>
   rejecting (AxiosError (unauthorized ''invalid key''))
       (buildRequest configured (messages freshPanel @ [userMessage 5 ''ping''])) =
     Rejected (AxiosError (unauthorized ''invalid key'')) \<and>
   providerMessage (unauthorized ''invalid key'') = Some ''invalid key'' \<and>
   extractMessage (unauthorized ''invalid key'') = ''invalid key'' \<and>
   posted (handleQuestion configured (rejecting (AxiosError (unauthorized ''invalid key''))) 5
             ''ping'' freshPanel) =
     [\<lparr>ev_type = error_event, ev_content = ''API error: invalid key''\<rparr>] \<and>
   messages (handleQuestion configured (rejecting (AxiosError (unauthorized ''invalid key''))) 5
             ''ping'' freshPanel) =
     [\<lparr>role = User, content = ''ping'', timestamp = Some 5, image' = None\<rparr>]"
proof -
  have k: "apiKey configured \<noteq> []" by (simp add: configured_def)
  have n: "rejecting (AxiosError (unauthorized ''invalid key''))
       (buildRequest configured (messages freshPanel @ [userMessage 5 ''ping''])) =
     Rejected (AxiosError (unauthorized ''invalid key''))"
    by (simp add: rejecting_def)
  have p: "providerMessage (unauthorized ''invalid key'') = Some ''invalid key''"
    by (simp add: providerMessage_def unauthorized_def)
  show ?thesis
    using k n p
      http_failure_message_priority [where net = "rejecting (AxiosError (unauthorized ''invalid key''))"
        and s = freshPanel and now = 5 and question = "''ping''", OF k n]
    by (simp add: freshPanel_def)
qed

text \<open>
  Claim C8. The log before an invocation of \<open>_handleQuestion\<close> is a prefix of the log
  after it, and so it is for the message handler and for any sequence of successive
  invocations: turns are only ever appended.
\<close>
theorem log_is_append_only:
  "prefix (messages s) (messages (handleQuestion cfg net now question s)) \<and>
   prefix (messages s) (messages (onDidReceiveMessage cfg net now msg s)) \<and>
   prefix (messages s) (messages (handleQuestions calls s))"
  by (simp add: handleQuestion_prefix handleQuestions_prefix onDidReceiveMessage_def)




text \<open>
  Claim C10. When the API key is present and \<open>_callOpenAI\<close> returns the empty string,
  \<open>_handleQuestion\<close> appends the user turn only and posts no event at all.
\<close>
theorem empty_answer_is_silent:
  assumes "apiKey cfg \<noteq> []"
    and "clientResult cfg net now question s = Inr []"
  shows "messages (handleQuestion cfg net now question s) =
           messages s @ [\<lparr>role = User, content = question, timestamp = Some now, image' = None\<rparr>] \<and>
         posted (handleQuestion cfg net now question s) = posted s"
  using handleQuestion_empty [OF assms] by (simp add: userMessage_def)

text \<open>C10 at a provider whose first choice has empty content.\<close>
theorem empty_answer_is_silent_witness:
  "apiKey configured \<noteq> [] \<and>
   clientResult configured (answering []) 8 ''Say nothing'' freshPanel = Inr [] \<and>
   messages (handleQuestion configured (answering []) 8 ''Say nothing'' freshPanel) =
     [\<lparr>role = User, content = ''Say nothing'', timestamp = Some 8, image' = None\<rparr>] \<and>
   posted (handleQuestion configured (answering []) 8 ''Say nothing'' freshPanel) = []"
proof -
  have k: "apiKey configured \<noteq> []" by (simp add: configured_def)
  have r: "clientResult configured (answering []) 8 ''Say nothing'' freshPanel = Inr []"
    by (simp add: clientResult_eq answering_def)
  show ?thesis
    using k r empty_answer_is_silent [OF k r] by (simp add: freshPanel_def)
qed

end
